theory Spec2Isabelle
  imports Main
begin

section \<open>Python values, exceptions and dates\<close>

text \<open>
  The values that may stand in the \<open>TECHNOLOGIES\<close> dictionary of \<open>myfile.py\<close>:
  \<open>None\<close>, integers, strings, lists and tuples. The script expects a list
  \<open>['tech_name', days_to_keep, 'delete/keep']\<close> and checks this at run time.
\<close>

datatype pyval = PNone | PInt int | PStr string | PList "pyval list" | PTuple "pyval list"

text \<open>
  The exceptions (all subclasses of Python's \<open>Exception\<close>) that the script or one of
  its collaborators can raise. \<open>ClientError\<close> carries the result of
  \<open>int(e.response['Error']['Code'])\<close>: \<open>None\<close> when the code is not an integer
  literal, in which case \<open>int\<close> raises \<open>ValueError\<close>.
\<close>

datatype exc =
    IndexError | TypeError | ValueError | UnboundLocalError
  | PermissionError | FileNotFoundError | OSError
  | EndpointConnectionError | ClientError "int option" | NoCredentialsError
  | gaierror | TimeoutError | SMTPAuthenticationError
  | OtherError string

text \<open>\<open>v[i]\<close> for a literal index \<open>i \<ge> 0\<close>.\<close>

fun py_getitem :: "pyval \<Rightarrow> nat \<Rightarrow> exc + pyval" where
  "py_getitem (PList xs) i = (if i < length xs then Inr (xs ! i) else Inl IndexError)"
| "py_getitem (PTuple xs) i = (if i < length xs then Inr (xs ! i) else Inl IndexError)"
| "py_getitem (PStr s) i = (if i < length s then Inr (PStr [s ! i]) else Inl IndexError)"
| "py_getitem PNone i = Inl TypeError"
| "py_getitem (PInt n) i = Inl TypeError"

text \<open>
  \<open>(not isinstance(v, list)) or (len(v) != 3)\<close>: the \<open>or\<close> short-circuits, so
  \<open>len\<close> is only taken of a list.
\<close>

fun incorrect_list :: "pyval \<Rightarrow> bool" where
  "incorrect_list (PList xs) = (length xs \<noteq> 3)"
| "incorrect_list v = True"

text \<open>\<open>n <= v\<close> for an integer \<open>n\<close>: only defined against another integer.\<close>

fun py_le :: "int \<Rightarrow> pyval \<Rightarrow> exc + bool" where
  "py_le n (PInt m) = Inr (n \<le> m)"
| "py_le n v = Inl TypeError"

text \<open>\<open>str(n)\<close> for an integer: decimal digits, no padding, a sign when negative.\<close>

definition decimal_digits :: string where
  "decimal_digits = ''0123456789''"

fun digits10 :: "nat \<Rightarrow> string" where
  "digits10 n =
     (if n < 10 then [decimal_digits ! n]
      else digits10 (n div 10) @ [decimal_digits ! (n mod 10)])"

declare digits10.simps [simp del]

definition py_str_int :: "int \<Rightarrow> string" where
  "py_str_int i = (if i < 0 then CHR ''-'' # digits10 (nat (- i)) else digits10 (nat i))"

text \<open>
  \<open>datetime.date\<close>: year, month and day, and the day count \<open>toordinal\<close> that
  date subtraction is defined by (\<open>(a - b).days = a.toordinal() - b.toordinal()\<close>).
  Python only builds dates with a month in 1..12.
\<close>

record date =
  year :: int
  month :: int
  day :: int

definition is_leap :: "int \<Rightarrow> bool" where
  "is_leap y = (y mod 4 = 0 \<and> (y mod 100 \<noteq> 0 \<or> y mod 400 = 0))"

definition days_before_year :: "int \<Rightarrow> int" where
  "days_before_year y' = (let y = y' - 1 in y * 365 + y div 4 - y div 100 + y div 400)"

definition days_before_month :: "int \<Rightarrow> int \<Rightarrow> int" where
  "days_before_month y m =
     (if 1 \<le> m \<and> m \<le> 12
      then [0, 31, 59, 90, 120, 151, 181, 212, 243, 273, 304, 334] ! nat (m - 1)
           + (if m > 2 \<and> is_leap y then 1 else 0)
      else 0)"

definition toordinal :: "date \<Rightarrow> int" where
  "toordinal d = days_before_year (year d) + days_before_month (year d) (month d) + day d"

definition days_between :: "date \<Rightarrow> date \<Rightarrow> int" where
  "days_between a b = toordinal a - toordinal b"

section \<open>Paths (\<open>os.path\<close> on POSIX)\<close>

definition sep :: char where
  "sep = CHR ''/''"

definition isabs :: "string \<Rightarrow> bool" where
  "isabs p = (case p of [] \<Rightarrow> False | c # cs \<Rightarrow> c = sep)"

definition endswith_sep :: "string \<Rightarrow> bool" where
  "endswith_sep p = (case rev p of [] \<Rightarrow> False | c # cs \<Rightarrow> c = sep)"

definition basename :: "string \<Rightarrow> string" where
  "basename p = rev (takeWhile (\<lambda>c. c \<noteq> sep) (rev p))"

definition dirname :: "string \<Rightarrow> string" where
  "dirname p =
     (let head = rev (dropWhile (\<lambda>c. c \<noteq> sep) (rev p))
      in if head \<noteq> [] \<and> filter (\<lambda>c. c \<noteq> sep) head \<noteq> []
         then rev (dropWhile (\<lambda>c. c = sep) (rev head))
         else head)"

text \<open>\<open>path.replace('\ ', ' ')\<close>: every backslash followed by a space becomes a space.\<close>

fun replace_escaped_space :: "string \<Rightarrow> string" where
  "replace_escaped_space (a # b # cs) =
     (if a = CHR 0x5C \<and> b = CHR '' '' then CHR '' '' # replace_escaped_space cs
      else a # replace_escaped_space (b # cs))"
| "replace_escaped_space cs = cs"

text \<open>
  \<open>os.path.join(a, *p)\<close>: a component that starts with the separator replaces what was
  joined so far; otherwise it is appended, after a separator unless the path so far is
  empty or already ends with one.
\<close>

definition join_step :: "string \<Rightarrow> string \<Rightarrow> string" where
  "join_step path b =
     (if isabs b then b
      else if path = [] \<or> endswith_sep path then path @ b
      else path @ sep # b)"

definition os_path_join :: "string \<Rightarrow> string list \<Rightarrow> string" where
  "os_path_join a p = foldl join_step a p"

text \<open>
  Lines 135-136: the destination folder and the key handed to \<open>upload_file\<close>.
  \<open>os.path.join\<close> raises \<open>TypeError\<close> on a component that is not a string.
\<close>

fun destination_folder :: "string \<Rightarrow> pyval \<Rightarrow> string \<Rightarrow> date \<Rightarrow> exc + string" where
  "destination_folder site (PStr tech_name) hostname last_modified_date =
     Inr (os_path_join site
            [tech_name, hostname, py_str_int (year last_modified_date),
             py_str_int (month last_modified_date)])"
| "destination_folder site v hostname last_modified_date = Inl TypeError"

definition destination_key :: "string \<Rightarrow> string \<Rightarrow> string" where
  "destination_key folder file_name = folder @ sep # file_name"

section \<open>Configuration, collaborators and observable effects\<close>

text \<open>
  A file matched by a technology's pattern, with what the collaborators answer for it:
  the local date of \<open>os.stat(file_path).st_mtime\<close> (or the exception \<open>os.stat\<close>
  raises), whether \<open>s3_client.upload_file\<close> raises, and whether \<open>os.remove\<close> raises.
\<close>

record matched_file =
  file_path :: string
  stat_mtime :: "exc + date"
  upload_outcome :: "exc option"
  remove_outcome :: "exc option"

text \<open>
  The module-level parameters of the script and the answers of its environment for one
  run. \<open>TECHNOLOGIES\<close> is the dictionary as the list of its items in insertion order,
  which is the order the \<open>for\<close> loop visits them in. \<open>glob\<close> answers
  \<open>list(pathlib.Path(absolute_path).glob(file_pattern))\<close>.
\<close>

record env =
  SITE :: string
  HOSTNAME :: string
  BUCKET :: string
  TECHNOLOGIES :: "(string \<times> pyval) list"
  DAYS_TO_CHECK :: int
  SLEEP_TIME :: nat
  MAIL_TO :: string
  version_info :: "int \<times> int \<times> int"
  today :: date
  head_bucket :: "exc option"
  glob :: "string \<Rightarrow> string \<Rightarrow> exc + matched_file list"
  smtp_connect :: "exc option"
  smtp_login :: "exc option"
  smtp_send_message :: "exc option"
  smtp_quit :: "exc option"

datatype level = INFO | WARNING | ERROR

text \<open>The log lines of the script, each with the values its f-string interpolates.\<close>

datatype message =
    BucketEndpointError exc string
  | PrivateBucket string
  | BucketDoesNotExist string
  | NoTechnologies
  | StartingBackup string pyval
  | IncorrectValue string
  | IncorrectAbsolutePath string pyval
  | NoRegexFormat string pyval
  | NoFilesFound string pyval
  | UploadError string
  | PermissionDenied string
  | NoFilesInInterval string pyval
  | UploadedAndDeleted nat string pyval
  | UploadedAndKept nat string pyval
  | UploadedButUndeleted nat string pyval nat
  | PartialWithDelete pyval nat nat nat
  | PartialWithKeep pyval nat nat
  | TotalTechnologies nat
  | SuccessfulTechnologies nat
  | Issues nat
  | VersionTooOld int int int
  | ZeroBackupFiles
  | EnvironmentCreated
  | SendingEmail string
  | NoInternet
  | TimedOut
  | BadCredentials
  | MailException exc
  | UnableToSendEmail

type_synonym log_entry = "level \<times> message"

text \<open>What \<open>print\<close> writes: the whole captured log, or the one-line confirmation.\<close>

datatype console = Report "log_entry list" | Executed string

text \<open>
  The effects of a run, in the order they happen. An upload attempt records the local
  path, the bucket, the key and whether \<open>upload_file\<close> raised; a remove attempt the
  path and whether \<open>os.remove\<close> raised.
\<close>

datatype event =
    Log level message
  | UploadAttempt string string string "exc option"
  | RemoveAttempt string "exc option"
  | Sleep nat
  | MailSent date "log_entry list"
  | Print console

fun log_of :: "event \<Rightarrow> log_entry list" where
  "log_of (Log l m) = [(l, m)]"
| "log_of e = []"

text \<open>\<open>output_buffer.getvalue()\<close> after the events \<open>evs\<close>.\<close>

definition getvalue :: "event list \<Rightarrow> log_entry list" where
  "getvalue evs = concat (map log_of evs)"

text \<open>
  A statement either returns a value or raises; the effects that happened before the
  raise stay. \<open>then_do\<close> sequences two statements.
\<close>

type_synonym 'a outcome = "event list \<times> (exc + 'a)"

definition then_do :: "'a outcome \<Rightarrow> ('a \<Rightarrow> 'b outcome) \<Rightarrow> 'b outcome" where
  "then_do m k =
     (case m of
        (evs, Inl e) \<Rightarrow> (evs, Inl e)
      | (evs, Inr a) \<Rightarrow> (case k a of (evs', r) \<Rightarrow> (evs @ evs', r)))"

section \<open>\<open>send_files\<close>\<close>

record counters =
  files_sent :: nat
  exception_files :: nat
  undeleteable_files :: nat

text \<open>
  Lines 142-148, after a successful upload: the optional delete, then the pause.
  Only \<open>PermissionError\<close> is caught; any other exception of \<open>os.remove\<close>
  leaves the function.
\<close>

definition after_upload :: "env \<Rightarrow> pyval \<Rightarrow> matched_file \<Rightarrow> counters \<Rightarrow> counters outcome" where
  "after_upload env delete_option f c =
     (if delete_option = PStr ''delete'' then
        (case remove_outcome f of
           None \<Rightarrow>
             ([RemoveAttempt (file_path f) None, Sleep (SLEEP_TIME env)], Inr c)
         | Some e \<Rightarrow>
             if e = PermissionError then
               ([RemoveAttempt (file_path f) (Some e),
                 Log ERROR (PermissionDenied (file_path f)),
                 Sleep (SLEEP_TIME env)],
                Inr (c\<lparr>undeleteable_files := undeleteable_files c + 1\<rparr>))
             else ([RemoveAttempt (file_path f) (Some e)], Inl e))
      else ([Sleep (SLEEP_TIME env)], Inr c))"

text \<open>
  Lines 133-148, for a file inside the interval: the \<open>try\<close> around the key
  computation and the upload, its \<open>except Exception\<close> and its \<open>else\<close>.
\<close>

definition transfer :: "env \<Rightarrow> pyval \<Rightarrow> pyval \<Rightarrow> date \<Rightarrow> matched_file \<Rightarrow> counters \<Rightarrow> counters outcome" where
  "transfer env tech_name delete_option last_modified_date f c =
     (let file_name = basename (file_path f) in
      case destination_folder (SITE env) tech_name (HOSTNAME env) last_modified_date of
        Inl e \<Rightarrow>
          ([Log ERROR (UploadError file_name)],
           Inr (c\<lparr>exception_files := exception_files c + 1\<rparr>))
      | Inr folder \<Rightarrow>
          (case upload_outcome f of
             Some e \<Rightarrow>
               ([UploadAttempt (file_path f) (BUCKET env) (destination_key folder file_name) (Some e),
                 Log ERROR (UploadError file_name)],
                Inr (c\<lparr>exception_files := exception_files c + 1\<rparr>))
           | None \<Rightarrow>
               then_do
                 ([UploadAttempt (file_path f) (BUCKET env) (destination_key folder file_name) None],
                  Inr (c\<lparr>files_sent := files_sent c + 1\<rparr>))
                 (after_upload env delete_option f)))"

text \<open>Lines 131-148: the body of the loop over \<open>files_list\<close>.\<close>

definition file_loop_body ::
  "env \<Rightarrow> date \<Rightarrow> pyval \<Rightarrow> pyval \<Rightarrow> pyval \<Rightarrow> matched_file \<Rightarrow> counters \<Rightarrow> counters outcome" where
  "file_loop_body env TODAY tech_name days delete_option f c =
     (case stat_mtime f of
        Inl e \<Rightarrow> ([], Inl e)
      | Inr last_modified_date \<Rightarrow>
          (case py_le (days_between TODAY last_modified_date) days of
             Inl e \<Rightarrow> ([], Inl e)
           | Inr False \<Rightarrow> ([], Inr c)
           | Inr True \<Rightarrow> transfer env tech_name delete_option last_modified_date f c))"

fun file_loop ::
  "env \<Rightarrow> date \<Rightarrow> pyval \<Rightarrow> pyval \<Rightarrow> pyval \<Rightarrow> matched_file list \<Rightarrow> counters \<Rightarrow> counters outcome" where
  "file_loop env TODAY tech_name days delete_option [] c = ([], Inr c)"
| "file_loop env TODAY tech_name days delete_option (f # fs) c =
     then_do (file_loop_body env TODAY tech_name days delete_option f c)
       (file_loop env TODAY tech_name days delete_option fs)"

text \<open>
  Lines 150-166: the log line for one technology and the new value of
  \<open>successfully_uploaded\<close>.
\<close>

definition classify ::
  "string \<Rightarrow> pyval \<Rightarrow> pyval \<Rightarrow> counters \<Rightarrow> nat \<Rightarrow> event list \<times> nat" where
  "classify absolute_path tech_name delete_option c successfully_uploaded =
     (if exception_files c = 0 then
        if files_sent c = 0 then
          ([Log WARNING (NoFilesInInterval absolute_path tech_name)], successfully_uploaded)
        else if undeleteable_files c = 0 then
          (if delete_option = PStr ''delete''
           then [Log INFO (UploadedAndDeleted (files_sent c) absolute_path tech_name)]
           else [Log INFO (UploadedAndKept (files_sent c) absolute_path tech_name)],
           successfully_uploaded + 1)
        else
          ([Log WARNING (UploadedButUndeleted (files_sent c) absolute_path tech_name
                           (undeleteable_files c))],
           successfully_uploaded)
      else if delete_option = PStr ''delete'' then
        ([Log WARNING (PartialWithDelete tech_name (files_sent c) (exception_files c)
                         (undeleteable_files c))],
         successfully_uploaded)
      else
        ([Log WARNING (PartialWithKeep tech_name (files_sent c) (exception_files c))],
         successfully_uploaded))"

text \<open>\<open>if days is None: days = DAYS_TO_CHECK\<close>.\<close>

definition effective_days :: "env \<Rightarrow> pyval \<Rightarrow> pyval" where
  "effective_days env days = (if days = PNone then PInt (DAYS_TO_CHECK env) else days)"

definition zero_counters :: counters where
  "zero_counters = \<lparr>files_sent = 0, exception_files = 0, undeleteable_files = 0\<rparr>"

text \<open>Lines 121-166: a technology that passed the checks.\<close>

definition transfer_technology ::
  "env \<Rightarrow> date \<Rightarrow> string \<Rightarrow> pyval \<Rightarrow> matched_file list \<Rightarrow> nat \<Rightarrow> nat outcome" where
  "transfer_technology env TODAY absolute_path v files_list successfully_uploaded =
     then_do ([], py_getitem v 0) (\<lambda>tech_name.
     then_do ([], py_getitem v 1) (\<lambda>days.
     then_do ([], py_getitem v 2) (\<lambda>delete_option.
     then_do (file_loop env TODAY tech_name (effective_days env days) delete_option
                files_list zero_counters) (\<lambda>c.
       case classify absolute_path tech_name delete_option c successfully_uploaded of
         (evs, n) \<Rightarrow> (evs, Inr n)))))"

text \<open>
  Lines 102-166: the body of the loop over \<open>TECHNOLOGIES\<close>, for the item
  \<open>(path, v)\<close> where \<open>v\<close> is \<open>TECHNOLOGIES[path]\<close>. The files are listed and
  \<open>TECHNOLOGIES[path][0]\<close> is interpolated into the first log line before any check.
\<close>

definition technology_loop_body :: "env \<Rightarrow> date \<Rightarrow> string \<times> pyval \<Rightarrow> nat \<Rightarrow> nat outcome" where
  "technology_loop_body env TODAY item successfully_uploaded =
     (case item of (path, v) \<Rightarrow>
      let file_pattern = basename path;
          absolute_path = dirname (replace_escaped_space path)
      in
      then_do ([], glob env absolute_path file_pattern) (\<lambda>files_list.
      then_do ([], py_getitem v 0) (\<lambda>v0.
      then_do ([Log INFO (StartingBackup absolute_path v0)], Inr ()) (\<lambda>_.
        if incorrect_list v then
          ([Log ERROR (IncorrectValue absolute_path)], Inr successfully_uploaded)
        else if \<not> isabs path then
          ([Log ERROR (IncorrectAbsolutePath absolute_path v0)], Inr successfully_uploaded)
        else if file_pattern = [] then
          ([Log ERROR (NoRegexFormat absolute_path v0)], Inr successfully_uploaded)
        else if files_list = [] then
          ([Log WARNING (NoFilesFound absolute_path v0)], Inr successfully_uploaded)
        else
          transfer_technology env TODAY absolute_path v files_list successfully_uploaded))))"

fun technology_loop :: "env \<Rightarrow> date \<Rightarrow> (string \<times> pyval) list \<Rightarrow> nat \<Rightarrow> nat outcome" where
  "technology_loop env TODAY [] successfully_uploaded = ([], Inr successfully_uploaded)"
| "technology_loop env TODAY (item # items) successfully_uploaded =
     then_do (technology_loop_body env TODAY item successfully_uploaded)
       (technology_loop env TODAY items)"

text \<open>Lines 168-173: the summary after the loop.\<close>

definition summary :: "nat \<Rightarrow> nat \<Rightarrow> event list" where
  "summary total_technologies successfully_uploaded =
     [Log INFO (TotalTechnologies total_technologies),
      Log INFO (SuccessfulTechnologies successfully_uploaded),
      Log (if total_technologies > successfully_uploaded then WARNING else INFO)
        (Issues (total_technologies - successfully_uploaded))]"

text \<open>
  Lines 87-96: the handlers of the \<open>try\<close> around \<open>head_bucket\<close>. A \<open>ClientError\<close>
  whose code is neither 403 nor 404 is swallowed without a log line; one whose code is
  not an integer raises \<open>ValueError\<close> from the handler; any other exception is not
  handled.
\<close>

definition head_bucket_handlers :: "env \<Rightarrow> exc \<Rightarrow> unit outcome" where
  "head_bucket_handlers env e =
     (case e of
        EndpointConnectionError \<Rightarrow> ([Log ERROR (BucketEndpointError e (BUCKET env))], Inr ())
      | ClientError None \<Rightarrow> ([], Inl ValueError)
      | ClientError (Some error_code) \<Rightarrow>
          if error_code = 403 then ([Log ERROR (PrivateBucket (BUCKET env))], Inr ())
          else if error_code = 404 then ([Log ERROR (BucketDoesNotExist (BUCKET env))], Inr ())
          else ([], Inr ())
      | _ \<Rightarrow> ([], Inl e))"

definition send_files :: "env \<Rightarrow> date \<Rightarrow> unit outcome" where
  "send_files env TODAY =
     (let total_technologies = length (TECHNOLOGIES env) in
      case head_bucket env of
        Some e \<Rightarrow> head_bucket_handlers env e
      | None \<Rightarrow>
          if TECHNOLOGIES env = [] then ([Log ERROR NoTechnologies], Inr ())
          else
            then_do (technology_loop env TODAY (TECHNOLOGIES env) 0) (\<lambda>successfully_uploaded.
              (summary total_technologies successfully_uploaded, Inr ())))"

section \<open>\<open>send_email\<close> and \<open>backup\<close>\<close>

text \<open>The four \<open>except\<close> clauses of \<open>send_email\<close>, in their order.\<close>

definition mail_error_message :: "exc \<Rightarrow> message" where
  "mail_error_message e =
     (if e = gaierror then NoInternet
      else if e = TimeoutError then TimedOut
      else if e = SMTPAuthenticationError then BadCredentials
      else MailException e)"

text \<open>
  \<open>send_email\<close>, given the effects so far (they determine the buffer that
  \<open>set_content\<close> reads): the effects it adds and the flag it returns.
\<close>

definition send_email :: "env \<Rightarrow> date \<Rightarrow> event list \<Rightarrow> event list \<times> bool" where
  "send_email env TODAY so_far =
     (case smtp_connect env of
        Some e \<Rightarrow> ([Log ERROR (mail_error_message e)], False)
      | None \<Rightarrow>
     (case smtp_login env of
        Some e \<Rightarrow> ([Log ERROR (mail_error_message e)], False)
      | None \<Rightarrow>
     (case smtp_send_message env of
        Some e \<Rightarrow> ([Log ERROR (mail_error_message e)], False)
      | None \<Rightarrow>
     (case smtp_quit env of
        Some e \<Rightarrow> ([MailSent TODAY (getvalue so_far), Log ERROR (mail_error_message e)], False)
      | None \<Rightarrow> ([MailSent TODAY (getvalue so_far)], True)))))"

text \<open>Lines 227-233 of \<open>backup\<close>, once \<open>TODAY\<close> is bound.\<close>

definition report :: "env \<Rightarrow> date \<Rightarrow> event list \<Rightarrow> event list" where
  "report env TODAY so_far =
     (let evs1 = so_far @ [Log INFO (SendingEmail (MAIL_TO env))] in
      case send_email env TODAY evs1 of
        (sent, is_success) \<Rightarrow>
          let evs2 = evs1 @ sent in
          if \<not> is_success then
            (let evs3 = evs2 @ [Log ERROR UnableToSendEmail]
             in evs3 @ [Print (Report (getvalue evs3))])
          else evs2 @ [Print (Executed (MAIL_TO env))])"

text \<open>
  \<open>backup\<close>. When the version check fails, \<open>TODAY\<close> is never assigned, and reading it
  for the call of \<open>send_email\<close> raises \<open>UnboundLocalError\<close>.
\<close>

definition version_too_old :: "int \<Rightarrow> int \<Rightarrow> bool" where
  "version_too_old major minor = (major \<noteq> 3 \<or> minor < 6)"

definition backup :: "env \<Rightarrow> unit outcome" where
  "backup env =
     (case version_info env of (major, minor, micro) \<Rightarrow>
      if version_too_old major minor then
        ([Log ERROR (VersionTooOld major minor micro), Log ERROR ZeroBackupFiles,
          Log INFO (SendingEmail (MAIL_TO env))],
         Inl UnboundLocalError)
      else
        (case then_do ([Log INFO EnvironmentCreated], Inr ()) (\<lambda>_. send_files env (today env)) of
           (evs, Inl e) \<Rightarrow> (evs, Inl e)
         | (evs, Inr _) \<Rightarrow> (report env (today env) evs, Inr ())))"

section \<open>Notions of the specification and example runs\<close>

text \<open>
  The key that the template
  \<open>{site}/{technology_name}/{hostname}/{year}/{month}/{filename}\<close> describes.
\<close>

definition template_key :: "string \<Rightarrow> string \<Rightarrow> string \<Rightarrow> date \<Rightarrow> string \<Rightarrow> string" where
  "template_key site tech_name hostname d file_name =
     site @ sep # tech_name @ sep # hostname @ sep # py_str_int (year d) @ sep #
       py_str_int (month d) @ sep # file_name"

text \<open>A component that \<open>os.path.join\<close> appends after a separator and can extend.\<close>

definition plain_component :: "string \<Rightarrow> bool" where
  "plain_component s = (s \<noteq> [] \<and> \<not> isabs s \<and> \<not> endswith_sep s)"

text \<open>The number a string of decimal digits denotes.\<close>

definition decimal_value :: "string \<Rightarrow> nat" where
  "decimal_value s = foldl (\<lambda>a c. 10 * a + (of_char c - 48)) 0 s"

definition mtime_2023_11_02 :: date where
  "mtime_2023_11_02 = \<lparr>year = 2023, month = 11, day = 2\<rparr>"

definition mtime_2023_03_05 :: date where
  "mtime_2023_03_05 = \<lparr>year = 2023, month = 3, day = 5\<rparr>"

definition run_date :: date where
  "run_date = \<lparr>year = 2023, month = 11, day = 5\<rparr>"

text \<open>A file whose upload and removal both succeed.\<close>

definition file_A :: matched_file where
  "file_A = \<lparr>file_path = ''/var/log/A.class'', stat_mtime = Inr mtime_2023_11_02,
              upload_outcome = None, remove_outcome = None\<rparr>"

text \<open>A run in which every collaborator answers without an exception.\<close>

definition example_env :: env where
  "example_env =
     \<lparr>SITE = ''s'', HOSTNAME = ''h'', BUCKET = ''forsendingtoaws'',
      TECHNOLOGIES = [(''/var/log/*.class'', PList [PStr ''java'', PInt 90, PStr ''delete''])],
      DAYS_TO_CHECK = 5, SLEEP_TIME = 5, MAIL_TO = ''ops@example.org'',
      version_info = (3, 8, 0), today = run_date, head_bucket = None,
      glob = (\<lambda>absolute_path file_pattern. Inr [file_A]),
      smtp_connect = None, smtp_login = None, smtp_send_message = None, smtp_quit = None\<rparr>"

text \<open>Counting the pauses and the uploads among the effects.\<close>

fun is_pause :: "event \<Rightarrow> bool" where
  "is_pause (Sleep n) = True"
| "is_pause e = False"

fun is_upload_attempt :: "event \<Rightarrow> bool" where
  "is_upload_attempt (UploadAttempt p b k r) = True"
| "is_upload_attempt e = False"

fun is_successful_upload :: "event \<Rightarrow> bool" where
  "is_successful_upload (UploadAttempt p b k None) = True"
| "is_successful_upload e = False"

definition pauses :: "event list \<Rightarrow> nat" where
  "pauses evs = length (filter is_pause evs)"

definition upload_attempts :: "event list \<Rightarrow> nat" where
  "upload_attempts evs = length (filter is_upload_attempt evs)"

definition successful_uploads :: "event list \<Rightarrow> nat" where
  "successful_uploads evs = length (filter is_successful_upload evs)"

text \<open>A file whose upload raises.\<close>

definition file_B :: matched_file where
  "file_B = \<lparr>file_path = ''/var/log/B.class'', stat_mtime = Inr mtime_2023_11_02,
              upload_outcome = Some (OtherError ''connection reset''), remove_outcome = None\<rparr>"

definition mtime_2023_03_01 :: date where
  "mtime_2023_03_01 = \<lparr>year = 2023, month = 3, day = 1\<rparr>"

text \<open>A file last modified in March, and one older than any window used here.\<close>

definition file_M :: matched_file where
  "file_M = \<lparr>file_path = ''/var/log/M.class'', stat_mtime = Inr mtime_2023_03_05,
              upload_outcome = None, remove_outcome = None\<rparr>"

definition file_old :: matched_file where
  "file_old = \<lparr>file_path = ''/var/log/old.class'', stat_mtime = Inr mtime_2023_03_01,
                upload_outcome = None, remove_outcome = None\<rparr>"

text \<open>
  A file that \<open>os.remove\<close> may not delete, and one that is gone when \<open>os.remove\<close>
  is called.
\<close>

definition file_D :: matched_file where
  "file_D = \<lparr>file_path = ''/var/log/D.class'', stat_mtime = Inr mtime_2023_11_02,
              upload_outcome = None, remove_outcome = Some PermissionError\<rparr>"

definition file_C :: matched_file where
  "file_C = \<lparr>file_path = ''/var/log/C.class'', stat_mtime = Inr mtime_2023_11_02,
              upload_outcome = None, remove_outcome = Some FileNotFoundError\<rparr>"

definition java_entry :: "string \<times> pyval" where
  "java_entry = (''/var/log/*.class'', PList [PStr ''java'', PInt 90, PStr ''delete''])"

text \<open>A run in which the pattern matches an old file and a recent one.\<close>

definition mixed_env :: env where
  "mixed_env = example_env\<lparr>glob := (\<lambda>absolute_path file_pattern. Inr [file_old, file_A])\<rparr>"






text \<open>A run in which the matched file is gone when \<open>os.remove\<close> is called.\<close>

definition delete_error_env :: env where
  "delete_error_env = example_env\<lparr>glob := (\<lambda>absolute_path file_pattern. Inr [file_C])\<rparr>"

text \<open>A run under an interpreter that fails the version check.\<close>

definition old_python_env :: env where
  "old_python_env = example_env\<lparr>version_info := (3, 5, 2)\<rparr>"

text \<open>A run whose only technology entry is the empty list.\<close>

definition empty_list_env :: env where
  "empty_list_env = example_env\<lparr>TECHNOLOGIES := [(''/var/log/*.class'', PList [])]\<rparr>"


section \<open>Sequencing, digits and paths\<close>

lemma then_do_Inl [simp]: "then_do (evs, Inl e) k = (evs, Inl e)"
  by (simp add: then_do_def)

lemma then_do_Inr [simp]: "then_do (evs, Inr a) k = (evs @ fst (k a), snd (k a))"
  by (simp add: then_do_def split: prod.splits)

lemma then_do_events:
  "ev \<in> set (fst (then_do m k)) \<Longrightarrow>
     ev \<in> set (fst m) \<or> (\<exists>a. snd m = Inr a \<and> ev \<in> set (fst (k a)))"
  by (cases m; cases "snd m") auto

lemma then_do_returns:
  "then_do m k = (evs, Inr b) \<Longrightarrow>
     \<exists>evs1 a evs2. m = (evs1, Inr a) \<and> k a = (evs2, Inr b) \<and> evs = evs1 @ evs2"
  by (cases m; cases "snd m") (auto simp: prod_eq_iff)

lemma length_decimal_digits: "length decimal_digits = 10"
  by (simp add: decimal_digits_def)

lemma sep_not_digit: "sep \<notin> set decimal_digits"
  by (simp add: decimal_digits_def sep_def)

lemma digits10_nonempty: "digits10 n \<noteq> []"
  by (subst digits10.simps) simp

lemma digit_not_zero:
  assumes "d < 10" and "0 < d"
  shows "decimal_digits ! d \<noteq> CHR ''0''"
proof -
  from assms have "d = 1 \<or> d = 2 \<or> d = 3 \<or> d = 4 \<or> d = 5 \<or> d = 6 \<or> d = 7 \<or> d = 8 \<or> d = 9"
    by arith
  then show ?thesis by (elim disjE) (simp_all add: decimal_digits_def)
qed

lemma digits10_chars: "set (digits10 n) \<subseteq> set decimal_digits"
proof (induction n rule: digits10.induct)
  case (1 n)
  show ?case
  proof (cases "n < 10")
    case True
    then have "decimal_digits ! n \<in> set decimal_digits"
      by (simp add: length_decimal_digits)
    moreover from True have "digits10 n = [decimal_digits ! n]"
      by (subst digits10.simps) simp
    ultimately show ?thesis by simp
  next
    case False
    have "decimal_digits ! (n mod 10) \<in> set decimal_digits"
      by (simp add: length_decimal_digits)
    moreover from False have "digits10 n = digits10 (n div 10) @ [decimal_digits ! (n mod 10)]"
      by (subst digits10.simps) simp
    moreover from False have "set (digits10 (n div 10)) \<subseteq> set decimal_digits"
      by (rule 1)
    ultimately show ?thesis by simp
  qed
qed

lemma digits10_no_leading_zero: "0 < n \<Longrightarrow> hd (digits10 n) \<noteq> CHR ''0''"
proof (induction n rule: digits10.induct)
  case (1 n)
  show ?case
  proof (cases "n < 10")
    case True
    with 1(2) have "decimal_digits ! n \<noteq> CHR ''0''" by (simp add: digit_not_zero)
    moreover from True have "digits10 n = [decimal_digits ! n]"
      by (subst digits10.simps) simp
    ultimately show ?thesis by simp
  next
    case False
    then have "0 < n div 10" by simp
    with 1(1) False have "hd (digits10 (n div 10)) \<noteq> CHR ''0''" by simp
    moreover from False have "digits10 n = digits10 (n div 10) @ [decimal_digits ! (n mod 10)]"
      by (subst digits10.simps) simp
    ultimately show ?thesis by (simp add: digits10_nonempty)
  qed
qed

lemma digits10_single: "n < 10 \<Longrightarrow> length (digits10 n) = 1"
  by (subst digits10.simps) simp

lemma py_str_int_nonempty: "py_str_int i \<noteq> []"
  by (simp add: py_str_int_def digits10_nonempty)

lemma py_str_int_no_sep: "sep \<notin> set (py_str_int i)"
  using digits10_chars sep_not_digit by (auto simp: py_str_int_def sep_def)

lemma py_str_int_not_abs: "\<not> isabs (py_str_int i)"
  using py_str_int_no_sep [of i] by (cases "py_str_int i") (auto simp: isabs_def)

lemma py_str_int_not_endswith: "\<not> endswith_sep (py_str_int i)"
  using py_str_int_no_sep [of i]
  by (cases "py_str_int i" rule: rev_cases) (auto simp: endswith_sep_def)

lemma endswith_sep_append: "endswith_sep (p @ sep # b) = (b = [] \<or> endswith_sep b)"
  by (cases b rule: rev_cases) (simp_all add: endswith_sep_def)

lemma join_step_full:
  "\<not> isabs b \<Longrightarrow> p \<noteq> [] \<Longrightarrow> \<not> endswith_sep p \<Longrightarrow> join_step p b = p @ sep # b"
  by (simp add: join_step_def)

lemma join_step_length: "length (join_step p b) \<le> length p + length b + 1"
  by (simp add: join_step_def)

lemma join_step_length_eq:
  "length (join_step p b) = length p + length b + 1 \<Longrightarrow>
     \<not> isabs b \<and> p \<noteq> [] \<and> \<not> endswith_sep p"
  by (auto simp: join_step_def split: if_splits)

lemma join4_template:
  assumes "site \<noteq> []" "\<not> endswith_sep site" "plain_component t" "plain_component h"
  shows "os_path_join site [t, h, py_str_int y, py_str_int m] =
           site @ sep # t @ sep # h @ sep # py_str_int y @ sep # py_str_int m"
proof -
  from assms have 1: "join_step site t = site @ sep # t"
    by (simp add: join_step_full plain_component_def)
  from assms have 2: "join_step (site @ sep # t) h = site @ sep # t @ sep # h"
    using join_step_full [of h "site @ sep # t"]
    by (simp add: plain_component_def endswith_sep_append)
  from assms have 3: "join_step (site @ sep # t @ sep # h) (py_str_int y) =
      site @ sep # t @ sep # h @ sep # py_str_int y"
    using join_step_full [of "py_str_int y" "site @ sep # t @ sep # h"]
    by (simp add: plain_component_def endswith_sep_append py_str_int_not_abs)
  have 4: "join_step (site @ sep # t @ sep # h @ sep # py_str_int y) (py_str_int m) =
      site @ sep # t @ sep # h @ sep # py_str_int y @ sep # py_str_int m"
    using join_step_full [of "py_str_int m" "site @ sep # t @ sep # h @ sep # py_str_int y"]
    by (simp add: endswith_sep_append py_str_int_not_abs py_str_int_nonempty
          py_str_int_not_endswith)
  show ?thesis by (simp add: os_path_join_def 1 2 3 4)
qed

lemma join4_template_only:
  assumes "length (os_path_join site [t, h, ys, ms]) =
             length site + length t + length h + length ys + length ms + 4"
  shows "site \<noteq> [] \<and> \<not> endswith_sep site \<and> plain_component t \<and> plain_component h"
proof -
  let ?p1 = "join_step site t"
  let ?p2 = "join_step ?p1 h"
  let ?p3 = "join_step ?p2 ys"
  let ?p4 = "join_step ?p3 ms"
  have l1: "length ?p1 \<le> length site + length t + 1" by (rule join_step_length)
  have l2: "length ?p2 \<le> length ?p1 + length h + 1" by (rule join_step_length)
  have l3: "length ?p3 \<le> length ?p2 + length ys + 1" by (rule join_step_length)
  have l4: "length ?p4 \<le> length ?p3 + length ms + 1" by (rule join_step_length)
  from assms have tot: "length ?p4 = length site + length t + length h + length ys + length ms + 4"
    by (simp add: os_path_join_def)
  from l1 l2 l3 l4 tot have e1: "length ?p1 = length site + length t + 1" by linarith
  from l1 l2 l3 l4 tot have e2: "length ?p2 = length ?p1 + length h + 1" by linarith
  from l1 l2 l3 l4 tot have e3: "length ?p3 = length ?p2 + length ys + 1" by linarith
  from join_step_length_eq [OF e1] have s1: "\<not> isabs t" "site \<noteq> []" "\<not> endswith_sep site"
    by simp_all
  then have p1: "?p1 = site @ sep # t" by (simp add: join_step_full)
  from join_step_length_eq [OF e2] have s2: "\<not> isabs h" "\<not> endswith_sep ?p1" by simp_all
  from s2(2) p1 have t_ok: "t \<noteq> [] \<and> \<not> endswith_sep t" by (simp add: endswith_sep_append)
  from s2 have p2: "?p2 = ?p1 @ sep # h" by (simp add: join_step_full p1)
  from join_step_length_eq [OF e3] have "\<not> endswith_sep ?p2" by simp
  with p2 have h_ok: "h \<noteq> [] \<and> \<not> endswith_sep h" by (simp add: endswith_sep_append)
  from s1 s2 t_ok h_ok show ?thesis by (simp add: plain_component_def)
qed

lemma destination_key_template:
  "destination_key (os_path_join site [t, h, py_str_int (year d), py_str_int (month d)]) fn =
     template_key site t h d fn
   \<longleftrightarrow> site \<noteq> [] \<and> \<not> endswith_sep site \<and> plain_component t \<and> plain_component h"
proof
  assume eq: "destination_key (os_path_join site [t, h, py_str_int (year d), py_str_int (month d)]) fn =
     template_key site t h d fn"
  then have "length (destination_key (os_path_join site [t, h, py_str_int (year d), py_str_int (month d)]) fn) =
     length (template_key site t h d fn)" by simp
  then have "length (os_path_join site [t, h, py_str_int (year d), py_str_int (month d)]) =
     length site + length t + length h + length (py_str_int (year d)) + length (py_str_int (month d)) + 4"
    by (simp add: destination_key_def template_key_def)
  then show "site \<noteq> [] \<and> \<not> endswith_sep site \<and> plain_component t \<and> plain_component h"
    by (rule join4_template_only)
next
  assume "site \<noteq> [] \<and> \<not> endswith_sep site \<and> plain_component t \<and> plain_component h"
  then show "destination_key (os_path_join site [t, h, py_str_int (year d), py_str_int (month d)]) fn =
     template_key site t h d fn"
    by (simp add: join4_template destination_key_def template_key_def)
qed

lemma digit_value: "d < 10 \<Longrightarrow> of_char (decimal_digits ! d) - 48 = d"
proof -
  assume "d < 10"
  then have "d = 0 \<or> d = 1 \<or> d = 2 \<or> d = 3 \<or> d = 4 \<or> d = 5 \<or> d = 6 \<or> d = 7 \<or> d = 8 \<or> d = 9"
    by arith
  then show ?thesis by (elim disjE) (simp_all add: decimal_digits_def)
qed

lemma decimal_value_digits10: "decimal_value (digits10 n) = n"
proof (induction n rule: digits10.induct)
  case (1 n)
  show ?case
  proof (cases "n < 10")
    case True
    then have "digits10 n = [decimal_digits ! n]" by (subst digits10.simps) simp
    with True show ?thesis by (simp add: decimal_value_def digit_value)
  next
    case False
    then have eq: "digits10 n = digits10 (n div 10) @ [decimal_digits ! (n mod 10)]"
      by (subst digits10.simps) simp
    from False have ih: "decimal_value (digits10 (n div 10)) = n div 10" by (rule 1)
    have "decimal_value (digits10 n) = 10 * decimal_value (digits10 (n div 10)) + n mod 10"
      unfolding eq by (simp add: decimal_value_def digit_value)
    with ih show ?thesis by simp
  qed
qed

lemma str_of_positive:
  assumes "0 < i"
  shows "decimal_value (py_str_int i) = nat i \<and> hd (py_str_int i) \<noteq> CHR ''0''"
  using assms by (simp add: py_str_int_def decimal_value_digits10 digits10_no_leading_zero)

lemma after_upload_no_upload: "UploadAttempt p b k r \<notin> set (fst (after_upload env dopt f c))"
  by (simp add: after_upload_def split: option.splits)

lemma transfer_upload:
  assumes "UploadAttempt p b k r \<in> set (fst (transfer env tn dopt d f c))"
  shows "\<exists>folder. destination_folder (SITE env) tn (HOSTNAME env) d = Inr folder \<and>
           p = file_path f \<and> b = BUCKET env \<and>
           k = destination_key folder (basename (file_path f)) \<and> r = upload_outcome f"
proof (cases "destination_folder (SITE env) tn (HOSTNAME env) d")
  case (Inl e)
  with assms show ?thesis by (simp add: transfer_def)
next
  case (Inr folder)
  show ?thesis
  proof (cases "upload_outcome f")
    case None
    with Inr assms show ?thesis
      by (auto simp: transfer_def Let_def after_upload_no_upload)
  next
    case (Some e)
    with Inr assms show ?thesis by (simp add: transfer_def Let_def)
  qed
qed

lemma file_loop_body_upload:
  assumes "UploadAttempt p b k r \<in> set (fst (file_loop_body env TODAY tn days dopt f c))"
  shows "\<exists>d folder. stat_mtime f = Inr d \<and> py_le (days_between TODAY d) days = Inr True \<and>
           destination_folder (SITE env) tn (HOSTNAME env) d = Inr folder \<and>
           p = file_path f \<and> b = BUCKET env \<and>
           k = destination_key folder (basename (file_path f)) \<and> r = upload_outcome f"
proof (cases "stat_mtime f")
  case (Inl e)
  with assms show ?thesis by (simp add: file_loop_body_def)
next
  case (Inr d)
  show ?thesis
  proof (cases "py_le (days_between TODAY d) days")
    case (Inl e)
    with Inr assms show ?thesis by (simp add: file_loop_body_def)
  next
    case in_window: (Inr inside)
    with Inr assms have inside and "UploadAttempt p b k r \<in> set (fst (transfer env tn dopt d f c))"
      by (cases inside; simp add: file_loop_body_def)+
    with Inr in_window transfer_upload [of p b k r env tn dopt d f c] show ?thesis by auto
  qed
qed

lemma destination_folder_Inr:
  "destination_folder site tn h d = Inr folder \<Longrightarrow>
     \<exists>t. tn = PStr t \<and> folder = os_path_join site [t, h, py_str_int (year d), py_str_int (month d)]"
  by (cases tn) auto

text \<open>
  Where the key of a successful upload has the form of the template, and where it has
  not: it has, with the year and month of the file's own modification date, exactly when
  the site is not empty and does not end with a separator and the technology name and the
  hostname are plain components (not empty, not starting and not ending with a
  separator).
\<close>

lemma uploaded_key_template:
  assumes "UploadAttempt p b k None \<in> set (fst (file_loop_body env TODAY tn days dopt f c))"
  shows "\<exists>t d. tn = PStr t \<and> stat_mtime f = Inr d \<and>
           (k = template_key (SITE env) t (HOSTNAME env) d (basename (file_path f))
            \<longleftrightarrow> SITE env \<noteq> [] \<and> \<not> endswith_sep (SITE env) \<and> plain_component t \<and>
                plain_component (HOSTNAME env))"
proof -
  from file_loop_body_upload [OF assms] obtain d folder where
    d: "stat_mtime f = Inr d" and
    folder: "destination_folder (SITE env) tn (HOSTNAME env) d = Inr folder" and
    k: "k = destination_key folder (basename (file_path f))"
    by blast
  from destination_folder_Inr [OF folder] obtain t where
    t: "tn = PStr t" and
    f: "folder = os_path_join (SITE env) [t, HOSTNAME env, py_str_int (year d), py_str_int (month d)]"
    by blast
  from k f destination_key_template [of "SITE env" t "HOSTNAME env" d "basename (file_path f)"]
  have "k = template_key (SITE env) t (HOSTNAME env) d (basename (file_path f))
            \<longleftrightarrow> SITE env \<noteq> [] \<and> \<not> endswith_sep (SITE env) \<and> plain_component t \<and>
                plain_component (HOSTNAME env)"
    by simp
  with t d show ?thesis by blast
qed

lemma py_str_2023: "py_str_int 2023 = ''2023''"
  by (simp add: py_str_int_def digits10.simps decimal_digits_def)

lemma py_str_11: "py_str_int 11 = ''11''"
  by (simp add: py_str_int_def digits10.simps decimal_digits_def)

lemma py_str_3: "py_str_int 3 = ''3''"
  by (simp add: py_str_int_def digits10.simps decimal_digits_def)

lemmas path_defs = os_path_join_def join_step_def isabs_def endswith_sep_def sep_def
  destination_key_def basename_def

lemma file_A_age: "days_between run_date mtime_2023_11_02 = 3"
  by (simp add: days_between_def toordinal_def days_before_year_def days_before_month_def
        is_leap_def run_date_def mtime_2023_11_02_def)

lemma example_env_fields:
  "SITE example_env = ''s''" "HOSTNAME example_env = ''h''"
  "BUCKET example_env = ''forsendingtoaws''" "SLEEP_TIME example_env = 5"
  "DAYS_TO_CHECK example_env = 5" "MAIL_TO example_env = ''ops@example.org''"
  "today example_env = run_date" "version_info example_env = (3, 8, 0)"
  "head_bucket example_env = None"
  "smtp_connect example_env = None" "smtp_login example_env = None"
  "smtp_send_message example_env = None" "smtp_quit example_env = None"
  by (simp_all add: example_env_def)

lemma file_A_fields:
  "file_path file_A = ''/var/log/A.class''" "stat_mtime file_A = Inr mtime_2023_11_02"
  "upload_outcome file_A = None" "remove_outcome file_A = None"
  by (simp_all add: file_A_def)

lemma basename_A: "basename ''/var/log/A.class'' = ''A.class''"
  by (simp add: basename_def sep_def)

lemma mtime_fields:
  "year mtime_2023_11_02 = 2023" "month mtime_2023_11_02 = 11"
  "year mtime_2023_03_05 = 2023" "month mtime_2023_03_05 = 3"
  by (simp_all add: mtime_2023_11_02_def mtime_2023_03_05_def)

lemma folder_2023_11: "os_path_join ''s'' [''java'', ''h'', ''2023'', ''11''] = ''s/java/h/2023/11''"
  by (simp add: path_defs)

lemma file_A_events:
  "fst (file_loop_body example_env run_date (PStr ''java'') (PInt 90) (PStr ''delete'') file_A c) =
     [UploadAttempt ''/var/log/A.class'' ''forsendingtoaws'' ''s/java/h/2023/11/A.class'' None,
      RemoveAttempt ''/var/log/A.class'' None, Sleep 5]"
  by (simp add: file_loop_body_def file_A_fields file_A_age transfer_def after_upload_def
        example_env_fields mtime_fields py_str_2023 py_str_11 folder_2023_11 basename_A
        destination_key_def sep_def)

text \<open>
  The theorem at the specification's own example: site \<open>s\<close>, technology \<open>java\<close>,
  hostname \<open>h\<close>, modification date 2023-11-02 and file \<open>A.class\<close>.
\<close>

lemma uploaded_key_template_example:
  "UploadAttempt ''/var/log/A.class'' ''forsendingtoaws'' ''s/java/h/2023/11/A.class'' None
     \<in> set (fst (file_loop_body example_env run_date (PStr ''java'') (PInt 90) (PStr ''delete'')
                   file_A zero_counters)) \<and>
   ''s/java/h/2023/11/A.class'' = template_key ''s'' ''java'' ''h'' mtime_2023_11_02 ''A.class''"
proof -
  have h: "UploadAttempt ''/var/log/A.class'' ''forsendingtoaws'' ''s/java/h/2023/11/A.class'' None
     \<in> set (fst (file_loop_body example_env run_date (PStr ''java'') (PInt 90) (PStr ''delete'')
                   file_A zero_counters))"
    by (simp add: file_A_events)
  have "plain_component ''java''" "plain_component ''h''" "\<not> endswith_sep ''s''"
    by (simp_all add: plain_component_def isabs_def endswith_sep_def sep_def)
  with uploaded_key_template [OF h] have
    "''s/java/h/2023/11/A.class'' = template_key ''s'' ''java'' ''h'' mtime_2023_11_02 ''A.class''"
    by (simp add: example_env_fields file_A_fields basename_A)
  with h show ?thesis by simp
qed

lemma folder_abs_2023_11:
  "os_path_join ''s'' [''/java'', ''h'', ''2023'', ''11''] = ''/java/h/2023/11''"
  by (simp add: path_defs)

text \<open>
  Claim C7 fails on the code. The module's docstring says that a backup is uploaded at
  \<open>SITE/TECHNOLOGY/HOSTNAME/YEAR/MONTH\<close>, but for a technology name that starts with a
  separator \<open>os.path.join\<close> starts the folder again at that name: the file is uploaded
  under a key without the site, which is not the key of the template.
\<close>

theorem absolute_technology_name_drops_site:
  "UploadAttempt ''/var/log/A.class'' ''forsendingtoaws'' ''/java/h/2023/11/A.class'' None
     \<in> set (fst (file_loop_body example_env run_date (PStr ''/java'') (PInt 90) (PStr ''delete'')
                   file_A zero_counters)) \<and>
   ''/java/h/2023/11/A.class'' \<noteq> template_key ''s'' ''/java'' ''h'' mtime_2023_11_02 ''A.class''"
  by (simp add: file_loop_body_def file_A_fields file_A_age transfer_def after_upload_def
        example_env_fields mtime_fields py_str_2023 py_str_11 folder_abs_2023_11 basename_A
        destination_key_def template_key_def sep_def)

section \<open>The loop over the files\<close>

lemma file_B_fields:
  "file_path file_B = ''/var/log/B.class''" "stat_mtime file_B = Inr mtime_2023_11_02"
  "upload_outcome file_B = Some (OtherError ''connection reset'')" "remove_outcome file_B = None"
  by (simp_all add: file_B_def)

lemma basename_B: "basename ''/var/log/B.class'' = ''B.class''"
  by (simp add: basename_def sep_def)

lemma file_B_outcome:
  "file_loop_body example_env run_date (PStr ''java'') (PInt 90) (PStr ''delete'') file_B c =
     ([UploadAttempt ''/var/log/B.class'' ''forsendingtoaws'' ''s/java/h/2023/11/B.class''
         (Some (OtherError ''connection reset'')),
       Log ERROR (UploadError ''B.class'')],
      Inr (c\<lparr>exception_files := exception_files c + 1\<rparr>))"
  by (simp add: file_loop_body_def file_B_fields file_A_age transfer_def
        example_env_fields mtime_fields py_str_2023 py_str_11 folder_2023_11 basename_B
        destination_key_def sep_def Let_def)

lemma destination_folder_Inl:
  "destination_folder site tn h d = Inl e \<longleftrightarrow> (\<forall>t. tn \<noteq> PStr t) \<and> e = TypeError"
  by (cases tn) auto

text \<open>
  Claim C1, as the code has it. For every file the loop body processes, whatever the
  technology name: \<open>os.remove\<close> is attempted only if the upload of that file returned
  and the option is \<open>'delete'\<close>; when the body returns, \<open>exception_files\<close> grows by
  one exactly when \<open>upload_file\<close> raised or when, the file being inside the interval
  and the technology name not a string, the computation of the key raised before any
  upload (it stands in the same \<open>try\<close>); and \<open>undeleteable_files\<close> grows by one
  exactly when the upload returned, the option is \<open>'delete'\<close> and \<open>os.remove\<close>
  raised \<open>PermissionError\<close>.
\<close>

theorem delete_only_after_successful_upload:
  assumes "file_loop_body env TODAY tn days dopt f c = (evs, r)"
  shows "(\<forall>p out. RemoveAttempt p out \<in> set evs \<longrightarrow>
            upload_outcome f = None \<and> dopt = PStr ''delete'' \<and>
            (\<exists>b k. UploadAttempt p b k None \<in> set evs)) \<and>
         (\<forall>c'. r = Inr c' \<longrightarrow>
            exception_files c' = exception_files c +
              (if (\<exists>p b k e. UploadAttempt p b k (Some e) \<in> set evs) \<or>
                  (\<forall>t. tn \<noteq> PStr t) \<and>
                  (\<exists>d. stat_mtime f = Inr d \<and>
                       py_le (days_between TODAY d) days = Inr True)
               then 1 else 0) \<and>
            undeleteable_files c' = undeleteable_files c +
              (if (\<exists>p b k. UploadAttempt p b k None \<in> set evs) \<and> dopt = PStr ''delete'' \<and>
                  (\<exists>p. RemoveAttempt p (Some PermissionError) \<in> set evs)
               then 1 else 0))"
proof (cases "stat_mtime f")
  case (Inl e)
  with assms show ?thesis by (auto simp: file_loop_body_def)
next
  case (Inr d)
  show ?thesis
  proof (cases "py_le (days_between TODAY d) days")
    case (Inl e)
    with Inr assms show ?thesis by (auto simp: file_loop_body_def)
  next
    case window: (Inr inside)
    show ?thesis
    proof (cases inside)
      case False
      with Inr window assms show ?thesis by (auto simp: file_loop_body_def)
    next
      case True
      with Inr window assms have
        run: "transfer env tn dopt d f c = (evs, r)"
        by (simp add: file_loop_body_def)
      show ?thesis
      proof (cases "destination_folder (SITE env) tn (HOSTNAME env) d")
        case no_key: (Inl e)
        then have "\<forall>t. tn \<noteq> PStr t" by (simp add: destination_folder_Inl)
        with no_key run Inr window True show ?thesis
          by (auto simp: transfer_def Let_def)
      next
        case key: (Inr folder)
        from destination_folder_Inr [OF key] obtain t where "tn = PStr t" by blast
        with key run Inr window True show ?thesis
          by (auto simp: transfer_def after_upload_def Let_def
                   split: option.splits if_splits)
      qed
    qed
  qed
qed

lemma after_upload_counts:
  assumes "after_upload env dopt f c = (evs, Inr c')"
  shows "pauses evs = 1 \<and> successful_uploads evs = 0 \<and> files_sent c' = files_sent c"
  using assms
  by (auto simp: after_upload_def pauses_def successful_uploads_def
           split: option.splits if_splits)

lemma file_loop_body_counts:
  assumes "file_loop_body env TODAY tn days dopt f c = (evs, Inr c')"
  shows "pauses evs = successful_uploads evs \<and>
         files_sent c' = files_sent c + successful_uploads evs"
  using assms
  by (auto simp: file_loop_body_def transfer_def after_upload_def Let_def
           pauses_def successful_uploads_def
           split: sum.splits option.splits if_splits bool.splits)

text \<open>
  Claim C3, as the code has it. \<open>time.sleep\<close> stands in the \<open>else\<close> branch of the
  \<open>try\<close>: when the loop over the files returns, the number of pauses is the number of
  successful uploads, which is also what \<open>files_sent\<close> grew by.
\<close>

theorem pauses_follow_successful_uploads:
  assumes "file_loop env TODAY tn days dopt fs c = (evs, Inr c')"
  shows "pauses evs = successful_uploads evs \<and>
         files_sent c' = files_sent c + successful_uploads evs"
  using assms
proof (induction fs arbitrary: c evs)
  case Nil
  then show ?case by (simp add: pauses_def successful_uploads_def)
next
  case (Cons f fs)
  from Cons.prems obtain evs1 c1 evs2 where
    body: "file_loop_body env TODAY tn days dopt f c = (evs1, Inr c1)" and
    rest: "file_loop env TODAY tn days dopt fs c1 = (evs2, Inr c')" and
    evs: "evs = evs1 @ evs2"
    using then_do_returns by (metis file_loop.simps(2))
  from file_loop_body_counts [OF body] Cons.IH [OF rest] evs show ?case
    by (simp add: pauses_def successful_uploads_def)
qed

text \<open>
  Claim C3 as stated fails: one file inside the interval whose upload raises is one
  completed transfer attempt (the loop returns, \<open>exception_files\<close> is 1), with no pause.
\<close>

theorem failed_upload_is_not_followed_by_a_pause:
  "pauses (fst (file_loop example_env run_date (PStr ''java'') (PInt 90) (PStr ''delete'')
                  [file_B] zero_counters)) = 0 \<and>
   upload_attempts (fst (file_loop example_env run_date (PStr ''java'') (PInt 90)
                           (PStr ''delete'') [file_B] zero_counters)) = 1 \<and>
   snd (file_loop example_env run_date (PStr ''java'') (PInt 90) (PStr ''delete'')
          [file_B] zero_counters) =
     Inr \<lparr>files_sent = 0, exception_files = 1, undeleteable_files = 0\<rparr>"
  by (simp add: file_B_outcome pauses_def upload_attempts_def zero_counters_def)

lemma file_M_fields:
  "file_path file_M = ''/var/log/M.class''" "stat_mtime file_M = Inr mtime_2023_03_05"
  "upload_outcome file_M = None" "remove_outcome file_M = None"
  by (simp_all add: file_M_def)

lemma file_M_age: "days_between mtime_2023_03_05 mtime_2023_03_05 = 0"
  by (simp add: days_between_def)

lemma basename_M: "basename ''/var/log/M.class'' = ''M.class''"
  by (simp add: basename_def sep_def)

lemma folder_2023_3: "os_path_join ''s'' [''java'', ''h'', ''2023'', ''3''] = ''s/java/h/2023/3''"
  by (simp add: path_defs)

lemma file_M_events:
  "fst (file_loop_body example_env mtime_2023_03_05 (PStr ''java'') (PInt 90) (PStr ''keep'') file_M c) =
     [UploadAttempt ''/var/log/M.class'' ''forsendingtoaws'' ''s/java/h/2023/3/M.class'' None,
      Sleep 5]"
  by (simp add: file_loop_body_def file_M_fields file_M_age transfer_def after_upload_def
        example_env_fields mtime_fields py_str_2023 py_str_3 folder_2023_3 basename_M
        destination_key_def sep_def Let_def)

text \<open>
  Claim C10. The key of every upload attempt joins the site, the technology name, the
  hostname, \<open>str(year)\<close> and \<open>str(month)\<close> of the file's modification date; for a
  positive number, \<open>str\<close> gives decimal digits that denote it, without a leading zero.
\<close>

theorem key_year_month_unpadded:
  assumes "UploadAttempt p b k r \<in> set (fst (file_loop_body env TODAY tn days dopt f c))"
  shows "\<exists>t d. tn = PStr t \<and> stat_mtime f = Inr d \<and>
           k = destination_key
                 (os_path_join (SITE env)
                    [t, HOSTNAME env, py_str_int (year d), py_str_int (month d)])
                 (basename (file_path f)) \<and>
           (0 < year d \<longrightarrow> decimal_value (py_str_int (year d)) = nat (year d) \<and>
                            hd (py_str_int (year d)) \<noteq> CHR ''0'') \<and>
           (0 < month d \<longrightarrow> decimal_value (py_str_int (month d)) = nat (month d) \<and>
                             hd (py_str_int (month d)) \<noteq> CHR ''0'')"
proof -
  from file_loop_body_upload [OF assms] obtain d folder where
    d: "stat_mtime f = Inr d" and
    folder: "destination_folder (SITE env) tn (HOSTNAME env) d = Inr folder" and
    k: "k = destination_key folder (basename (file_path f))"
    by blast
  from destination_folder_Inr [OF folder] obtain t where
    t: "tn = PStr t" and
    f: "folder = os_path_join (SITE env) [t, HOSTNAME env, py_str_int (year d), py_str_int (month d)]"
    by blast
  from t d k f str_of_positive [of "year d"] str_of_positive [of "month d"] show ?thesis
    by blast
qed

text \<open>A file last modified on 2023-03-05 is stored under \<open>2023/3\<close>.\<close>

theorem key_year_month_unpadded_witness:
  "UploadAttempt ''/var/log/M.class'' ''forsendingtoaws'' ''s/java/h/2023/3/M.class'' None
     \<in> set (fst (file_loop_body example_env mtime_2023_03_05 (PStr ''java'') (PInt 90)
                   (PStr ''keep'') file_M zero_counters)) \<and>
   py_str_int (year mtime_2023_03_05) = ''2023'' \<and> py_str_int (month mtime_2023_03_05) = ''3'' \<and>
   decimal_value (py_str_int (month mtime_2023_03_05)) = 3 \<and>
   hd (py_str_int (month mtime_2023_03_05)) \<noteq> CHR ''0''"
proof -
  have h: "UploadAttempt ''/var/log/M.class'' ''forsendingtoaws'' ''s/java/h/2023/3/M.class'' None
     \<in> set (fst (file_loop_body example_env mtime_2023_03_05 (PStr ''java'') (PInt 90)
                   (PStr ''keep'') file_M zero_counters))"
    by (simp add: file_M_events)
  from key_year_month_unpadded [OF h] have
    "decimal_value (py_str_int (month mtime_2023_03_05)) = 3 \<and>
     hd (py_str_int (month mtime_2023_03_05)) \<noteq> CHR ''0''"
    by (simp add: file_M_fields mtime_fields)
  with h show ?thesis by (simp add: mtime_fields py_str_2023 py_str_3)
qed

lemma file_loop_upload:
  assumes "UploadAttempt p b k r \<in> set (fst (file_loop env TODAY tn days dopt fs c))"
  shows "\<exists>f c0. f \<in> set fs \<and>
           UploadAttempt p b k r \<in> set (fst (file_loop_body env TODAY tn days dopt f c0))"
  using assms
proof (induction fs arbitrary: c)
  case Nil
  then show ?case by simp
next
  case (Cons f fs)
  from Cons.prems then_do_events [of "UploadAttempt p b k r"
      "file_loop_body env TODAY tn days dopt f c" "file_loop env TODAY tn days dopt fs"]
  have "UploadAttempt p b k r \<in> set (fst (file_loop_body env TODAY tn days dopt f c)) \<or>
        (\<exists>c1. UploadAttempt p b k r \<in> set (fst (file_loop env TODAY tn days dopt fs c1)))"
    by auto
  then show ?case
  proof
    assume "UploadAttempt p b k r \<in> set (fst (file_loop_body env TODAY tn days dopt f c))"
    then show ?thesis by auto
  next
    assume "\<exists>c1. UploadAttempt p b k r \<in> set (fst (file_loop env TODAY tn days dopt fs c1))"
    then obtain c1 where
      "UploadAttempt p b k r \<in> set (fst (file_loop env TODAY tn days dopt fs c1))" ..
    from Cons.IH [OF this] show ?thesis by auto
  qed
qed

lemma classify_logs: "ev \<in> set (fst (classify ap tn dopt c n)) \<Longrightarrow> \<exists>l m. ev = Log l m"
  by (auto simp: classify_def split: if_splits)

lemma classify_fst:
  "fst (case classify ap tn dopt c n of (evs, n') \<Rightarrow> (evs, Inr n')) = fst (classify ap tn dopt c n)"
  by (simp split: prod.splits)

lemma transfer_technology_upload:
  assumes "UploadAttempt p b k r \<in> set (fst (transfer_technology env TODAY ap v fs n))"
  shows "\<exists>tn days dopt c0 f. py_getitem v 0 = Inr tn \<and> py_getitem v 1 = Inr days \<and>
           py_getitem v 2 = Inr dopt \<and> f \<in> set fs \<and>
           UploadAttempt p b k r
             \<in> set (fst (file_loop_body env TODAY tn (effective_days env days) dopt f c0))"
proof -
  from assms obtain tn where tn: "py_getitem v 0 = Inr tn"
    by (cases "py_getitem v 0") (auto simp: transfer_technology_def)
  from assms tn obtain days where days: "py_getitem v 1 = Inr days"
    by (cases "py_getitem v 1") (auto simp: transfer_technology_def)
  from assms tn days obtain dopt where dopt: "py_getitem v 2 = Inr dopt"
    by (cases "py_getitem v 2") (auto simp: transfer_technology_def)
  let ?loop = "file_loop env TODAY tn (effective_days env days) dopt fs zero_counters"
  from assms tn days dopt have
    "UploadAttempt p b k r \<in> set (fst (then_do ?loop (\<lambda>c.
        case classify ap tn dopt c n of (evs, n') \<Rightarrow> (evs, Inr n'))))"
    by (simp add: transfer_technology_def)
  from then_do_events [OF this] have "UploadAttempt p b k r \<in> set (fst ?loop)"
    by (auto simp: classify_fst dest: classify_logs)
  from file_loop_upload [OF this] tn days dopt show ?thesis by blast
qed

text \<open>
  Claim C8. Every upload attempt made for a technology is for a matched file whose age in
  days is at most the entry's second field, or at most \<open>DAYS_TO_CHECK\<close> when that field
  is \<open>None\<close>: for a file older than that, no upload is attempted.
\<close>

theorem uploads_only_inside_the_window:
  assumes "UploadAttempt p b k r \<in> set (fst (technology_loop_body env TODAY (path, v) n))"
  shows "\<exists>files_list f d days.
           glob env (dirname (replace_escaped_space path)) (basename path) = Inr files_list \<and>
           f \<in> set files_list \<and> file_path f = p \<and> stat_mtime f = Inr d \<and>
           py_getitem v 1 = Inr days \<and>
           (days = PNone \<and> days_between TODAY d \<le> DAYS_TO_CHECK env \<or>
            (\<exists>w. days = PInt w \<and> days_between TODAY d \<le> w))"
proof -
  let ?ap = "dirname (replace_escaped_space path)"
  from assms obtain fs where fs: "glob env ?ap (basename path) = Inr fs"
    by (cases "glob env ?ap (basename path)") (auto simp: technology_loop_body_def Let_def)
  from assms fs obtain v0 where v0: "py_getitem v 0 = Inr v0"
    by (cases "py_getitem v 0") (auto simp: technology_loop_body_def Let_def)
  from assms fs v0 have
    "UploadAttempt p b k r \<in> set (fst (transfer_technology env TODAY ?ap v fs n))"
    by (auto simp: technology_loop_body_def Let_def split: if_splits)
  from transfer_technology_upload [OF this] obtain tn days dopt c0 f where
    days: "py_getitem v 1 = Inr days" and f: "f \<in> set fs" and
    up: "UploadAttempt p b k r
           \<in> set (fst (file_loop_body env TODAY tn (effective_days env days) dopt f c0))"
    by blast
  from file_loop_body_upload [OF up] obtain d where
    d: "stat_mtime f = Inr d" and
    le: "py_le (days_between TODAY d) (effective_days env days) = Inr True" and
    p: "p = file_path f"
    by blast
  from le have "days = PNone \<and> days_between TODAY d \<le> DAYS_TO_CHECK env \<or>
            (\<exists>w. days = PInt w \<and> days_between TODAY d \<le> w)"
    by (cases days) (auto simp: effective_days_def)
  with fs f d p days show ?thesis by blast
qed

lemma file_D_fields:
  "file_path file_D = ''/var/log/D.class''" "stat_mtime file_D = Inr mtime_2023_11_02"
  "upload_outcome file_D = None" "remove_outcome file_D = Some PermissionError"
  by (simp_all add: file_D_def)

lemma file_C_fields:
  "file_path file_C = ''/var/log/C.class''" "stat_mtime file_C = Inr mtime_2023_11_02"
  "upload_outcome file_C = None" "remove_outcome file_C = Some FileNotFoundError"
  by (simp_all add: file_C_def)

lemma file_old_fields:
  "file_path file_old = ''/var/log/old.class''" "stat_mtime file_old = Inr mtime_2023_03_01"
  by (simp_all add: file_old_def)

lemma basename_C_D:
  "basename ''/var/log/C.class'' = ''C.class''" "basename ''/var/log/D.class'' = ''D.class''"
  by (simp_all add: basename_def sep_def)

lemma file_old_age: "days_between run_date mtime_2023_03_01 = 249"
  by (simp add: days_between_def toordinal_def days_before_year_def days_before_month_def
        is_leap_def run_date_def mtime_2023_03_01_def)

lemma mixed_env_fields:
  "SITE mixed_env = ''s''" "HOSTNAME mixed_env = ''h''"
  "BUCKET mixed_env = ''forsendingtoaws''" "SLEEP_TIME mixed_env = 5"
  "DAYS_TO_CHECK mixed_env = 5"
  "glob mixed_env = (\<lambda>absolute_path file_pattern. Inr [file_old, file_A])"
  by (simp_all add: mixed_env_def example_env_def)

lemmas eval_defs = file_loop_body_def transfer_def after_upload_def Let_def
  mtime_fields py_str_2023 py_str_11 folder_2023_11 destination_key_def sep_def

lemma file_A_outcome:
  "file_loop_body example_env run_date (PStr ''java'') (PInt 90) (PStr ''delete'') file_A c =
     ([UploadAttempt ''/var/log/A.class'' ''forsendingtoaws'' ''s/java/h/2023/11/A.class'' None,
       RemoveAttempt ''/var/log/A.class'' None, Sleep 5],
      Inr (c\<lparr>files_sent := files_sent c + 1\<rparr>))"
  by (simp add: eval_defs file_A_fields file_A_age example_env_fields basename_A)

lemma file_D_outcome:
  "file_loop_body example_env run_date (PStr ''java'') (PInt 90) (PStr ''delete'') file_D c =
     ([UploadAttempt ''/var/log/D.class'' ''forsendingtoaws'' ''s/java/h/2023/11/D.class'' None,
       RemoveAttempt ''/var/log/D.class'' (Some PermissionError),
       Log ERROR (PermissionDenied ''/var/log/D.class''), Sleep 5],
      Inr (c\<lparr>files_sent := files_sent c + 1,
              undeleteable_files := undeleteable_files c + 1\<rparr>))"
  by (simp add: eval_defs file_D_fields file_A_age example_env_fields basename_C_D)

lemma file_C_outcome:
  "file_loop_body example_env run_date (PStr ''java'') (PInt 90) (PStr ''delete'') file_C c =
     ([UploadAttempt ''/var/log/C.class'' ''forsendingtoaws'' ''s/java/h/2023/11/C.class'' None,
       RemoveAttempt ''/var/log/C.class'' (Some FileNotFoundError)],
      Inl FileNotFoundError)"
  by (simp add: eval_defs file_C_fields file_A_age example_env_fields basename_C_D)

text \<open>
  The theorem for a file that is uploaded and then may not be deleted: it counts as
  undeletable, not as an upload failure.
\<close>

theorem delete_only_after_successful_upload_witness:
  "file_loop_body example_env run_date (PStr ''java'') (PInt 90) (PStr ''delete'') file_D
       zero_counters =
     ([UploadAttempt ''/var/log/D.class'' ''forsendingtoaws'' ''s/java/h/2023/11/D.class'' None,
       RemoveAttempt ''/var/log/D.class'' (Some PermissionError),
       Log ERROR (PermissionDenied ''/var/log/D.class''), Sleep 5],
      Inr \<lparr>files_sent = 1, exception_files = 0, undeleteable_files = 1\<rparr>) \<and>
   exception_files \<lparr>files_sent = 1, exception_files = 0, undeleteable_files = 1\<rparr> =
     exception_files zero_counters + 0 \<and>
   undeleteable_files \<lparr>files_sent = 1, exception_files = 0, undeleteable_files = 1\<rparr> =
     undeleteable_files zero_counters + 1"
proof -
  let ?evs = "[UploadAttempt ''/var/log/D.class'' ''forsendingtoaws'' ''s/java/h/2023/11/D.class'' None,
       RemoveAttempt ''/var/log/D.class'' (Some PermissionError),
       Log ERROR (PermissionDenied ''/var/log/D.class''), Sleep 5]"
  let ?c = "\<lparr>files_sent = 1, exception_files = 0, undeleteable_files = 1\<rparr>"
  have h: "file_loop_body example_env run_date (PStr ''java'') (PInt 90) (PStr ''delete'') file_D
       zero_counters = (?evs, Inr ?c)"
    by (simp add: file_D_outcome zero_counters_def)
  from delete_only_after_successful_upload [OF h] have
    "exception_files ?c = exception_files zero_counters + 0 \<and>
     undeleteable_files ?c = undeleteable_files zero_counters + 1"
    by simp
  with h show ?thesis by simp
qed

text \<open>The theorem for two files, the second of which fails to upload: one pause.\<close>

theorem pauses_follow_successful_uploads_witness:
  "file_loop example_env run_date (PStr ''java'') (PInt 90) (PStr ''delete'') [file_A, file_B]
       zero_counters =
     ([UploadAttempt ''/var/log/A.class'' ''forsendingtoaws'' ''s/java/h/2023/11/A.class'' None,
       RemoveAttempt ''/var/log/A.class'' None, Sleep 5,
       UploadAttempt ''/var/log/B.class'' ''forsendingtoaws'' ''s/java/h/2023/11/B.class''
         (Some (OtherError ''connection reset'')),
       Log ERROR (UploadError ''B.class'')],
      Inr \<lparr>files_sent = 1, exception_files = 1, undeleteable_files = 0\<rparr>) \<and>
   pauses (fst (file_loop example_env run_date (PStr ''java'') (PInt 90) (PStr ''delete'')
                  [file_A, file_B] zero_counters)) = 1 \<and>
   successful_uploads (fst (file_loop example_env run_date (PStr ''java'') (PInt 90)
                              (PStr ''delete'') [file_A, file_B] zero_counters)) = 1 \<and>
   upload_attempts (fst (file_loop example_env run_date (PStr ''java'') (PInt 90)
                           (PStr ''delete'') [file_A, file_B] zero_counters)) = 2"
proof -
  let ?run = "file_loop example_env run_date (PStr ''java'') (PInt 90) (PStr ''delete'')
                [file_A, file_B] zero_counters"
  let ?evs = "[UploadAttempt ''/var/log/A.class'' ''forsendingtoaws'' ''s/java/h/2023/11/A.class'' None,
       RemoveAttempt ''/var/log/A.class'' None, Sleep 5,
       UploadAttempt ''/var/log/B.class'' ''forsendingtoaws'' ''s/java/h/2023/11/B.class''
         (Some (OtherError ''connection reset'')),
       Log ERROR (UploadError ''B.class'')]"
  let ?c = "\<lparr>files_sent = 1, exception_files = 1, undeleteable_files = 0\<rparr>"
  have h: "?run = (?evs, Inr ?c)"
    by (simp add: file_A_outcome file_B_outcome zero_counters_def)
  from pauses_follow_successful_uploads [OF h] have "pauses ?evs = successful_uploads ?evs"
    by simp
  moreover have "successful_uploads ?evs = 1" "upload_attempts ?evs = 2"
    by (simp_all add: successful_uploads_def upload_attempts_def)
  ultimately show ?thesis using h by simp
qed

lemma class_pattern_paths:
  "basename ''/var/log/*.class'' = ''*.class''"
  "dirname ''/var/log/*.class'' = ''/var/log''"
  "isabs ''/var/log/*.class''"
  by (simp_all add: basename_def dirname_def isabs_def sep_def)

lemma file_old_skipped:
  "file_loop_body mixed_env run_date tn (PInt 90) dopt file_old c = ([], Inr c)"
  by (simp add: file_loop_body_def file_old_fields file_old_age)

lemma file_A_outcome_mixed:
  "file_loop_body mixed_env run_date (PStr ''java'') (PInt 90) (PStr ''delete'') file_A c =
     ([UploadAttempt ''/var/log/A.class'' ''forsendingtoaws'' ''s/java/h/2023/11/A.class'' None,
       RemoveAttempt ''/var/log/A.class'' None, Sleep 5],
      Inr (c\<lparr>files_sent := files_sent c + 1\<rparr>))"
  by (simp add: eval_defs file_A_fields file_A_age mixed_env_fields basename_A)

lemma mixed_env_technology:
  "technology_loop_body mixed_env run_date java_entry 0 =
     ([Log INFO (StartingBackup ''/var/log'' (PStr ''java'')),
       UploadAttempt ''/var/log/A.class'' ''forsendingtoaws'' ''s/java/h/2023/11/A.class'' None,
       RemoveAttempt ''/var/log/A.class'' None, Sleep 5,
       Log INFO (UploadedAndDeleted 1 ''/var/log'' (PStr ''java''))],
      Inr 1)"
  by (simp add: technology_loop_body_def java_entry_def class_pattern_paths mixed_env_fields
        transfer_technology_def effective_days_def file_old_skipped file_A_outcome_mixed
        classify_def zero_counters_def Let_def)

text \<open>
  The theorem for a technology with a window of 90 days and two matched files, one 3 and
  one 249 days old: only the first is uploaded.
\<close>

theorem uploads_only_inside_the_window_witness:
  "UploadAttempt ''/var/log/A.class'' ''forsendingtoaws'' ''s/java/h/2023/11/A.class'' None
     \<in> set (fst (technology_loop_body mixed_env run_date
                   (''/var/log/*.class'', PList [PStr ''java'', PInt 90, PStr ''delete'']) 0)) \<and>
   (\<exists>f d. f \<in> set [file_old, file_A] \<and> file_path f = ''/var/log/A.class'' \<and>
          stat_mtime f = Inr d \<and> days_between run_date d \<le> 90) \<and>
   days_between run_date mtime_2023_03_01 = 249 \<and>
   (\<forall>b k r. UploadAttempt ''/var/log/old.class'' b k r
      \<notin> set (fst (technology_loop_body mixed_env run_date
                    (''/var/log/*.class'', PList [PStr ''java'', PInt 90, PStr ''delete'']) 0)))"
proof -
  let ?run = "technology_loop_body mixed_env run_date
                (''/var/log/*.class'', PList [PStr ''java'', PInt 90, PStr ''delete'']) 0"
  have run: "?run =
     ([Log INFO (StartingBackup ''/var/log'' (PStr ''java'')),
       UploadAttempt ''/var/log/A.class'' ''forsendingtoaws'' ''s/java/h/2023/11/A.class'' None,
       RemoveAttempt ''/var/log/A.class'' None, Sleep 5,
       Log INFO (UploadedAndDeleted 1 ''/var/log'' (PStr ''java''))],
      Inr 1)"
    using mixed_env_technology by (simp add: java_entry_def)
  then have h: "UploadAttempt ''/var/log/A.class'' ''forsendingtoaws''
                  ''s/java/h/2023/11/A.class'' None \<in> set (fst ?run)"
    by simp
  from uploads_only_inside_the_window [OF h] have
    "\<exists>f d. f \<in> set [file_old, file_A] \<and> file_path f = ''/var/log/A.class'' \<and>
          stat_mtime f = Inr d \<and> days_between run_date d \<le> 90"
    by (auto simp: mixed_env_fields)
  with h run file_old_age show ?thesis by simp
qed

section \<open>Classification and the bucket check\<close>

lemma transfer_technology_returns:
  assumes "transfer_technology env TODAY ap v fs n = (evs, Inr n')"
  shows "\<exists>tn days dopt evs1 c evs2.
           py_getitem v 0 = Inr tn \<and> py_getitem v 1 = Inr days \<and> py_getitem v 2 = Inr dopt \<and>
           file_loop env TODAY tn (effective_days env days) dopt fs zero_counters = (evs1, Inr c) \<and>
           classify ap tn dopt c n = (evs2, n') \<and> evs = evs1 @ evs2"
  using assms
  by (auto simp: transfer_technology_def then_do_def split: sum.splits prod.splits)

lemma classify_rule:
  assumes "classify ap tn dopt c n = (evs, n')"
  shows "(n' = n + 1 \<longleftrightarrow> exception_files c = 0 \<and> undeleteable_files c = 0 \<and> 0 < files_sent c) \<and>
         (n' = n \<or> n' = n + 1) \<and>
         (0 < exception_files c \<longrightarrow> n' = n \<and> (\<exists>m. evs = [Log WARNING m]))"
  using assms by (auto simp: classify_def split: if_splits)

text \<open>
  Claim C4. For a technology that passed the checks and whose loop over the files
  returned with the counters \<open>c\<close>: \<open>successfully_uploaded\<close> grows by one exactly when
  \<open>exception_files\<close> and \<open>undeleteable_files\<close> are 0 and \<open>files_sent\<close> is positive,
  and otherwise stays; when \<open>exception_files\<close> is positive it stays and the technology's
  last log line is a warning.
\<close>

theorem fully_successful_technology:
  assumes "transfer_technology env TODAY ap v fs n = (evs, Inr n')"
  shows "\<exists>tn days dopt evs1 c.
           py_getitem v 0 = Inr tn \<and> py_getitem v 1 = Inr days \<and> py_getitem v 2 = Inr dopt \<and>
           file_loop env TODAY tn (effective_days env days) dopt fs zero_counters = (evs1, Inr c) \<and>
           (n' = n + 1 \<longleftrightarrow>
              exception_files c = 0 \<and> undeleteable_files c = 0 \<and> 0 < files_sent c) \<and>
           (n' = n \<or> n' = n + 1) \<and>
           (0 < exception_files c \<longrightarrow> n' = n \<and> (\<exists>m. last evs = Log WARNING m))"
proof -
  from transfer_technology_returns [OF assms] obtain tn days dopt evs1 c evs2 where
    items: "py_getitem v 0 = Inr tn" "py_getitem v 1 = Inr days" "py_getitem v 2 = Inr dopt" and
    loop: "file_loop env TODAY tn (effective_days env days) dopt fs zero_counters = (evs1, Inr c)" and
    cl: "classify ap tn dopt c n = (evs2, n')" and evs: "evs = evs1 @ evs2"
    by blast
  from classify_rule [OF cl] evs have
    "(n' = n + 1 \<longleftrightarrow> exception_files c = 0 \<and> undeleteable_files c = 0 \<and> 0 < files_sent c) \<and>
     (n' = n \<or> n' = n + 1) \<and>
     (0 < exception_files c \<longrightarrow> n' = n \<and> (\<exists>m. last evs = Log WARNING m))"
    by auto
  with items loop show ?thesis
    by - (rule exI [of _ tn], rule exI [of _ days], rule exI [of _ dopt],
          rule exI [of _ evs1], rule exI [of _ c], auto)
qed

lemma files_A_B_loop:
  "file_loop example_env run_date (PStr ''java'') (PInt 90) (PStr ''delete'') [file_A, file_B]
       zero_counters =
     ([UploadAttempt ''/var/log/A.class'' ''forsendingtoaws'' ''s/java/h/2023/11/A.class'' None,
       RemoveAttempt ''/var/log/A.class'' None, Sleep 5,
       UploadAttempt ''/var/log/B.class'' ''forsendingtoaws'' ''s/java/h/2023/11/B.class''
         (Some (OtherError ''connection reset'')),
       Log ERROR (UploadError ''B.class'')],
      Inr \<lparr>files_sent = 1, exception_files = 1, undeleteable_files = 0\<rparr>)"
  by (simp add: file_A_outcome file_B_outcome zero_counters_def)

lemma files_A_B_technology:
  "transfer_technology example_env run_date ''/var/log''
       (PList [PStr ''java'', PInt 90, PStr ''delete'']) [file_A, file_B] 0 =
     ([UploadAttempt ''/var/log/A.class'' ''forsendingtoaws'' ''s/java/h/2023/11/A.class'' None,
       RemoveAttempt ''/var/log/A.class'' None, Sleep 5,
       UploadAttempt ''/var/log/B.class'' ''forsendingtoaws'' ''s/java/h/2023/11/B.class''
         (Some (OtherError ''connection reset'')),
       Log ERROR (UploadError ''B.class''),
       Log WARNING (PartialWithDelete (PStr ''java'') 1 1 0)],
      Inr 0)"
  by (simp add: transfer_technology_def effective_days_def files_A_B_loop classify_def
        del: file_loop.simps)

text \<open>
  The theorem for a technology with one file that is uploaded and deleted and one whose
  upload fails: a warning, and \<open>successfully_uploaded\<close> stays 0.
\<close>

theorem fully_successful_technology_witness:
  "transfer_technology example_env run_date ''/var/log''
       (PList [PStr ''java'', PInt 90, PStr ''delete'']) [file_A, file_B] 0 =
     ([UploadAttempt ''/var/log/A.class'' ''forsendingtoaws'' ''s/java/h/2023/11/A.class'' None,
       RemoveAttempt ''/var/log/A.class'' None, Sleep 5,
       UploadAttempt ''/var/log/B.class'' ''forsendingtoaws'' ''s/java/h/2023/11/B.class''
         (Some (OtherError ''connection reset'')),
       Log ERROR (UploadError ''B.class''),
       Log WARNING (PartialWithDelete (PStr ''java'') 1 1 0)],
      Inr 0) \<and>
   (\<exists>evs1 c. file_loop example_env run_date (PStr ''java'') (PInt 90) (PStr ''delete'')
                [file_A, file_B] zero_counters = (evs1, Inr c) \<and>
             0 < exception_files c \<and> 0 < files_sent c)"
proof -
  note h = files_A_B_technology
  from fully_successful_technology [OF h] have
    "\<exists>evs1 c. file_loop example_env run_date (PStr ''java'') (PInt 90) (PStr ''delete'')
                [file_A, file_B] zero_counters = (evs1, Inr c)"
    by (auto simp: effective_days_def simp del: file_loop.simps)
  then have "\<exists>evs1 c. file_loop example_env run_date (PStr ''java'') (PInt 90) (PStr ''delete'')
                [file_A, file_B] zero_counters = (evs1, Inr c) \<and>
             0 < exception_files c \<and> 0 < files_sent c"
    by (simp add: files_A_B_loop del: file_loop.simps)
  with h show ?thesis by (simp del: file_loop.simps)
qed






section \<open>The report and the end of the run\<close>


















lemma delete_error_env_fields:
  "SITE delete_error_env = ''s''" "HOSTNAME delete_error_env = ''h''"
  "BUCKET delete_error_env = ''forsendingtoaws''" "SLEEP_TIME delete_error_env = 5"
  "DAYS_TO_CHECK delete_error_env = 5" "today delete_error_env = run_date"
  "version_info delete_error_env = (3, 8, 0)" "head_bucket delete_error_env = None"
  "TECHNOLOGIES delete_error_env =
     [(''/var/log/*.class'', PList [PStr ''java'', PInt 90, PStr ''delete''])]"
  "glob delete_error_env = (\<lambda>absolute_path file_pattern. Inr [file_C])"
  by (simp_all add: delete_error_env_def example_env_def)

lemma file_C_outcome_delete_error:
  "file_loop_body delete_error_env run_date (PStr ''java'') (PInt 90) (PStr ''delete'') file_C c =
     ([UploadAttempt ''/var/log/C.class'' ''forsendingtoaws'' ''s/java/h/2023/11/C.class'' None,
       RemoveAttempt ''/var/log/C.class'' (Some FileNotFoundError)],
      Inl FileNotFoundError)"
  by (simp add: eval_defs file_C_fields file_A_age delete_error_env_fields basename_C_D)

lemma delete_error_technology:
  "technology_loop_body delete_error_env run_date
       (''/var/log/*.class'', PList [PStr ''java'', PInt 90, PStr ''delete'']) 0 =
     ([Log INFO (StartingBackup ''/var/log'' (PStr ''java'')),
       UploadAttempt ''/var/log/C.class'' ''forsendingtoaws'' ''s/java/h/2023/11/C.class'' None,
       RemoveAttempt ''/var/log/C.class'' (Some FileNotFoundError)],
      Inl FileNotFoundError)"
  by (simp add: technology_loop_body_def class_pattern_paths delete_error_env_fields
        transfer_technology_def effective_days_def file_C_outcome_delete_error Let_def)

lemma old_python_env_fields:
  "version_info old_python_env = (3, 5, 2)" "MAIL_TO old_python_env = ''ops@example.org''"
  by (simp_all add: old_python_env_def example_env_def)

text \<open>
  Claim C2 fails on the code. When \<open>os.remove\<close> raises an exception other than
  \<open>PermissionError\<close> (here the file is gone), the exception leaves \<open>send_files\<close> and
  \<open>backup\<close>: no mail is sent and nothing is printed. When the version check fails,
  \<open>backup\<close> raises \<open>UnboundLocalError\<close> before the report is dispatched.
\<close>

theorem uncaught_exceptions_end_the_run:
  "backup delete_error_env =
     ([Log INFO EnvironmentCreated,
       Log INFO (StartingBackup ''/var/log'' (PStr ''java'')),
       UploadAttempt ''/var/log/C.class'' ''forsendingtoaws'' ''s/java/h/2023/11/C.class'' None,
       RemoveAttempt ''/var/log/C.class'' (Some FileNotFoundError)],
      Inl FileNotFoundError) \<and>
   backup old_python_env =
     ([Log ERROR (VersionTooOld 3 5 2), Log ERROR ZeroBackupFiles,
       Log INFO (SendingEmail ''ops@example.org'')],
      Inl UnboundLocalError)"
  by (simp add: backup_def version_too_old_def send_files_def delete_error_env_fields
        delete_error_technology old_python_env_fields)

lemma empty_list_env_fields:
  "today empty_list_env = run_date" "version_info empty_list_env = (3, 8, 0)"
  "head_bucket empty_list_env = None"
  "TECHNOLOGIES empty_list_env = [(''/var/log/*.class'', PList [])]"
  "glob empty_list_env = (\<lambda>absolute_path file_pattern. Inr [file_A])"
  by (simp_all add: empty_list_env_def example_env_def)

text \<open>
  What the check of line 107 does achieve: an entry that is not a list of three items,
  but whose item 0 can be read for the first log line, is skipped with an error line.
\<close>

lemma incorrect_entry_is_skipped:
  assumes "glob env (dirname (replace_escaped_space path)) (basename path) = Inr fs"
    and "py_getitem v 0 = Inr v0" and "incorrect_list v"
  shows "technology_loop_body env TODAY (path, v) n =
           ([Log INFO (StartingBackup (dirname (replace_escaped_space path)) v0),
             Log ERROR (IncorrectValue (dirname (replace_escaped_space path)))],
            Inr n)"
  using assms by (simp add: technology_loop_body_def Let_def)

text \<open>
  Claim C6 fails on the code for the empty list: \<open>TECHNOLOGIES[path][0]\<close> is read for
  the first log line before the entry is checked, so the entry is not skipped; the
  \<open>IndexError\<close> ends the run before any log line about the entry.
\<close>

theorem empty_list_entry_raises:
  "technology_loop_body empty_list_env run_date (''/var/log/*.class'', PList []) 0 =
     ([], Inl IndexError) \<and>
   backup empty_list_env = ([Log INFO EnvironmentCreated], Inl IndexError)"
  by (simp add: backup_def version_too_old_def send_files_def technology_loop_body_def
        empty_list_env_fields Let_def)

section \<open>A technology name that is not a string\<close>

lemma example_env_glob: "glob example_env = (\<lambda>absolute_path file_pattern. Inr [file_A])"
  by (simp add: example_env_def)

lemma number_name_file:
  "file_loop_body example_env run_date (PInt 5) (PInt 90) (PStr ''delete'') file_A c =
     ([Log ERROR (UploadError ''A.class'')],
      Inr (c\<lparr>exception_files := exception_files c + 1\<rparr>))"
  by (simp add: file_loop_body_def transfer_def Let_def file_A_fields file_A_age basename_A)

text \<open>
  Claim C1 as stated fails for the entry \<open>[5, 90, 'delete']\<close>, which passes the checks
  of the entry: for a file inside the interval \<open>os.path.join\<close> raises \<open>TypeError\<close>
  in the \<open>try\<close>, so the file counts in \<open>exception_files\<close> although \<open>upload_file\<close>
  was never called and so did not raise.
\<close>

theorem number_name_counts_as_upload_failure:
  "technology_loop_body example_env run_date
       (''/var/log/*.class'', PList [PInt 5, PInt 90, PStr ''delete'']) 0 =
     ([Log INFO (StartingBackup ''/var/log'' (PInt 5)),
       Log ERROR (UploadError ''A.class''),
       Log WARNING (PartialWithDelete (PInt 5) 0 1 0)],
      Inr 0) \<and>
   file_loop_body example_env run_date (PInt 5) (PInt 90) (PStr ''delete'') file_A zero_counters =
     ([Log ERROR (UploadError ''A.class'')],
      Inr \<lparr>files_sent = 0, exception_files = 1, undeleteable_files = 0\<rparr>) \<and>
   upload_attempts
     (fst (file_loop_body example_env run_date (PInt 5) (PInt 90) (PStr ''delete'') file_A
             zero_counters)) = 0"
  by (simp add: technology_loop_body_def class_pattern_paths example_env_glob
        transfer_technology_def effective_days_def number_name_file classify_def
        zero_counters_def upload_attempts_def Let_def)

end
